theory Spec2Isabelle
  imports Complex_Main "HOL-Library.AList"
begin

section \<open>Egg Store API: a shallow embedding of \<open>main.py\<close>\<close>

text \<open>
  The handlers of \<open>main.py\<close> are translated function by function. A handler takes the
  global \<open>db\<close> (\<open>None\<close> when no database is configured) and returns its result together
  with the \<open>db\<close> it leaves behind. A raised \<open>HTTPException\<close> and an exception that nothing
  catches (answered by the framework with status 500) are the two failures of a handler.
\<close>

subsection \<open>Python values\<close>

text \<open>
  A Python \<open>str\<close> is a sequence of code points. The texts that carry data (titles,
  identities, payment methods) are modelled as \<open>string\<close>; the diagnostic texts of
  \<open>/test\<close> hold pictographs and are sliced by code point, so they are lists of code
  points (\<open>ustr\<close>).
\<close>

type_synonym ustr = "nat list"

definition ascii :: "string \<Rightarrow> ustr" where
  "ascii s = map of_char s"

text \<open>
  \<open>bson.ObjectId\<close>: twelve bytes, written as 24 hexadecimal digits. The value is kept as
  its lower-case text, which is what \<open>str\<close> returns. The constructor raises \<open>InvalidId\<close>
  (here \<open>None\<close>) on any other text.
\<close>

datatype objectid = Oid string

fun str_oid :: "objectid \<Rightarrow> string" where
  "str_oid (Oid s) = s"

definition is_hex :: "char \<Rightarrow> bool" where
  "is_hex c = (c \<in> set ''0123456789abcdefABCDEF'')"

definition hex_lower :: "char \<Rightarrow> char" where
  "hex_lower c =
     (if c = CHR ''A'' then CHR ''a'' else if c = CHR ''B'' then CHR ''b''
      else if c = CHR ''C'' then CHR ''c'' else if c = CHR ''D'' then CHR ''d''
      else if c = CHR ''E'' then CHR ''e'' else if c = CHR ''F'' then CHR ''f'' else c)"

definition ObjectId :: "string \<Rightarrow> objectid option" where
  "ObjectId s = (if length s = 24 \<and> list_all is_hex s then Some (Oid (map hex_lower s)) else None)"

definition oid_of_nat :: "nat \<Rightarrow> objectid" where
  "oid_of_nat n = Oid (map (\<lambda>i. ''0123456789abcdef'' ! ((n div 16 ^ i) mod 16)) (rev [0..<24]))"

text \<open>
  Floating-point numbers are a type parameter \<open>'f\<close> with the operations the program
  uses on them, so that every theorem holds for whatever these operations compute
  (IEEE doubles included). \<open>flit m e\<close> is the literal with digits \<open>m\<close> and \<open>e\<close> decimal
  places (\<open>4.99\<close> is \<open>flit 499 2\<close>), \<open>ffrom_int\<close> and \<open>ffrom_str\<close> are \<open>float(\<dots>)\<close> of an
  integer and of a text, \<open>fround x n\<close> is \<open>round(x, n)\<close>, \<open>fnonzero\<close> is truth of a float
  and \<open>fstr\<close> is \<open>str\<close>. The conversion of an integer is \<open>None\<close> where Python raises
  \<open>OverflowError\<close> (the integer is too large for a float).
\<close>

record 'f float_ops =
  flit :: "int \<Rightarrow> nat \<Rightarrow> 'f"
  ffrom_int :: "int \<Rightarrow> 'f option"
  ffrom_str :: "string \<Rightarrow> 'f option"
  fadd :: "'f \<Rightarrow> 'f \<Rightarrow> 'f"
  fmul :: "'f \<Rightarrow> 'f \<Rightarrow> 'f"
  fround :: "'f \<Rightarrow> nat \<Rightarrow> 'f"
  fnonzero :: "'f \<Rightarrow> bool"
  fstr :: "'f \<Rightarrow> string"

datatype 'f pyval = PNone | PBool bool | PInt int | PFloat 'f | PStr string | POid objectid

text \<open>A document (a Python \<open>dict\<close> with text keys) keeps its insertion order.\<close>

type_synonym 'f document = "(string \<times> 'f pyval) list"

definition dict_get :: "'f document \<Rightarrow> string \<Rightarrow> 'f pyval \<Rightarrow> 'f pyval" where
  "dict_get d k dflt = (case map_of d k of None \<Rightarrow> dflt | Some v \<Rightarrow> v)"

fun py_truthy :: "'f float_ops \<Rightarrow> 'f pyval \<Rightarrow> bool" where
  "py_truthy ops PNone = False"
| "py_truthy ops (PBool b) = b"
| "py_truthy ops (PInt n) = (n \<noteq> 0)"
| "py_truthy ops (PFloat x) = fnonzero ops x"
| "py_truthy ops (PStr s) = (s \<noteq> [])"
| "py_truthy ops (POid i) = True"

fun str_nat :: "nat \<Rightarrow> string" where
  "str_nat n = (if n < 10 then [''0123456789'' ! n]
                else str_nat (n div 10) @ [''0123456789'' ! (n mod 10)])"

definition str_int :: "int \<Rightarrow> string" where
  "str_int i = (if i < 0 then CHR ''-'' # str_nat (nat (- i)) else str_nat (nat i))"

fun py_str :: "'f float_ops \<Rightarrow> 'f pyval \<Rightarrow> string" where
  "py_str ops PNone = ''None''"
| "py_str ops (PBool b) = (if b then ''True'' else ''False'')"
| "py_str ops (PInt n) = str_int n"
| "py_str ops (PFloat x) = fstr ops x"
| "py_str ops (PStr s) = s"
| "py_str ops (POid i) = str_oid i"

text \<open>
  \<open>float(v)\<close>; \<open>None\<close> stands for the \<open>TypeError\<close>, \<open>ValueError\<close> or \<open>OverflowError\<close>
  it raises.
\<close>

fun py_float :: "'f float_ops \<Rightarrow> 'f pyval \<Rightarrow> 'f option" where
  "py_float ops PNone = None"
| "py_float ops (PBool b) = ffrom_int ops (if b then 1 else 0)"
| "py_float ops (PInt n) = ffrom_int ops n"
| "py_float ops (PFloat x) = Some x"
| "py_float ops (PStr s) = ffrom_str ops s"
| "py_float ops (POid i) = None"

text \<open>
  \<open>x * n\<close> for a float \<open>x\<close> and an integer \<open>n\<close>: the integer is converted to a float first,
  which raises \<open>OverflowError\<close> (\<open>None\<close>) when it is too large.
\<close>

definition float_times_int :: "'f float_ops \<Rightarrow> 'f \<Rightarrow> int \<Rightarrow> 'f option" where
  "float_times_int ops x n =
     (case ffrom_int ops n of None \<Rightarrow> None | Some q \<Rightarrow> Some (fmul ops x q))"

subsection \<open>Schemas and request models\<close>

record OrderItemInput =
  product_id :: string
  quantity :: int

record CreateOrderInput =
  items :: "OrderItemInput list"
  customer_name :: string
  email :: string
  address :: string
  payment_method :: string

text \<open>
  Request validation (\<open>quantity: int = Field(ge=1)\<close>) happens before the handler runs;
  \<open>payment_method\<close> left out of the request is filled with \<open>"card"\<close>.
\<close>

definition valid_items :: "OrderItemInput list \<Rightarrow> bool" where
  "valid_items its = list_all (\<lambda>it. 1 \<le> quantity it) its"

definition CreateOrderInput_new ::
  "OrderItemInput list \<Rightarrow> string \<Rightarrow> string \<Rightarrow> string \<Rightarrow> string option \<Rightarrow> CreateOrderInput" where
  "CreateOrderInput_new its n e a pm =
     \<lparr>items = its, customer_name = n, email = e, address = a,
      payment_method = (case pm of None \<Rightarrow> ''card'' | Some m \<Rightarrow> m)\<rparr>"

record 'f OrderItem =
  item_product_id :: string
  item_title :: string
  item_price :: 'f
  item_quantity :: int
  item_subtotal :: 'f

text \<open>
  Modelled from the spec: \<open>schemas.OrderItem\<close> (\<open>schemas.py\<close> is not among the sources).
  The spec gives \<open>title\<close> as a string and \<open>quantity\<close> as an integer at least 1; building
  an item from anything else fails validation (\<open>None\<close>).
\<close>

definition OrderItem_new ::
  "string \<Rightarrow> 'f pyval \<Rightarrow> 'f \<Rightarrow> int \<Rightarrow> 'f \<Rightarrow> 'f OrderItem option" where
  "OrderItem_new pid title price qty subtotal =
     (case title of
        PStr t \<Rightarrow> if 1 \<le> qty
                  then Some \<lparr>item_product_id = pid, item_title = t, item_price = price,
                             item_quantity = qty, item_subtotal = subtotal\<rparr>
                  else None
      | _ \<Rightarrow> None)"

text \<open>
  Modelled from the spec: \<open>schemas.Order\<close>. Every value \<open>create_order\<close> passes to it has
  the declared type by construction, so building the record does not fail.
\<close>

record 'f Order =
  order_items :: "'f OrderItem list"
  order_customer_name :: string
  order_email :: string
  order_address :: string
  order_payment_method :: string
  total_amount :: 'f
  status :: string

text \<open>
  Modelled from the spec: \<open>schemas.Product\<close> and its \<open>model_dump()\<close>, with the six fields
  the spec lists.
\<close>

definition Product_dump ::
  "string \<Rightarrow> string \<Rightarrow> 'f \<Rightarrow> string \<Rightarrow> bool \<Rightarrow> string \<Rightarrow> 'f document" where
  "Product_dump title description price category in_stock image_url =
     [(''title'', PStr title), (''description'', PStr description), (''price'', PFloat price),
      (''category'', PStr category), (''in_stock'', PBool in_stock), (''image'', PStr image_url)]"

subsection \<open>The document store\<close>

text \<open>
  The pymongo handle: the two collections the program uses, the names of any other
  collections, the counter identities are drawn from, and two fields about the calls
  themselves: \<open>faults c\<close> is the message of the exception call \<open>c\<close> raises
  (\<open>None\<close>: the call succeeds), \<open>journal\<close> lists the calls made so far.
\<close>

datatype store_call =
  CountDocuments string | InsertOne string | Find string | FindOne string objectid
  | ListCollectionNames

datatype exn = Exn ustr

record 'f database =
  db_name :: string
  product_coll :: "'f document list"
  order_coll :: "(objectid \<times> 'f Order) list"
  other_colls :: "string list"
  next_oid :: nat
  faults :: "store_call \<Rightarrow> ustr option"
  journal :: "store_call list"

definition called :: "store_call \<Rightarrow> 'f database \<Rightarrow> 'f database" where
  "called c D = D\<lparr>journal := journal D @ [c]\<rparr>"

definition count_documents_product :: "'f database \<Rightarrow> (exn + nat) \<times> 'f database" where
  "count_documents_product D =
     (case faults D (CountDocuments ''product'') of
        Some m \<Rightarrow> (Inl (Exn m), called (CountDocuments ''product'') D)
      | None \<Rightarrow> (Inr (length (product_coll D)), called (CountDocuments ''product'') D))"

definition insert_one_product :: "'f document \<Rightarrow> 'f database \<Rightarrow> (exn + objectid) \<times> 'f database" where
  "insert_one_product doc D =
     (case faults D (InsertOne ''product'') of
        Some m \<Rightarrow> (Inl (Exn m), called (InsertOne ''product'') D)
      | None \<Rightarrow>
          (Inr (oid_of_nat (next_oid D)),
           called (InsertOne ''product'')
             (D\<lparr>product_coll := product_coll D @ [(''_id'', POid (oid_of_nat (next_oid D))) # doc],
                next_oid := Suc (next_oid D)\<rparr>)))"

definition insert_one_order :: "'f Order \<Rightarrow> 'f database \<Rightarrow> (exn + objectid) \<times> 'f database" where
  "insert_one_order ord D =
     (case faults D (InsertOne ''order'') of
        Some m \<Rightarrow> (Inl (Exn m), called (InsertOne ''order'') D)
      | None \<Rightarrow>
          (Inr (oid_of_nat (next_oid D)),
           called (InsertOne ''order'')
             (D\<lparr>order_coll := order_coll D @ [(oid_of_nat (next_oid D), ord)],
                next_oid := Suc (next_oid D)\<rparr>)))"

definition find_product :: "'f database \<Rightarrow> (exn + 'f document list) \<times> 'f database" where
  "find_product D =
     (case faults D (Find ''product'') of
        Some m \<Rightarrow> (Inl (Exn m), called (Find ''product'') D)
      | None \<Rightarrow> (Inr (product_coll D), called (Find ''product'') D))"

definition find_one_product ::
  "objectid \<Rightarrow> 'f database \<Rightarrow> (exn + 'f document option) \<times> 'f database" where
  "find_one_product i D =
     (case faults D (FindOne ''product'' i) of
        Some m \<Rightarrow> (Inl (Exn m), called (FindOne ''product'' i) D)
      | None \<Rightarrow>
          (Inr (find (\<lambda>d. map_of d ''_id'' = Some (POid i)) (product_coll D)),
           called (FindOne ''product'' i) D))"

definition collection_names :: "'f database \<Rightarrow> string list" where
  "collection_names D =
     (if product_coll D = [] then [] else [''product'']) @
     (if order_coll D = [] then [] else [''order'']) @ other_colls D"

definition list_collection_names :: "'f database \<Rightarrow> (exn + string list) \<times> 'f database" where
  "list_collection_names D =
     (case faults D ListCollectionNames of
        Some m \<Rightarrow> (Inl (Exn m), called ListCollectionNames D)
      | None \<Rightarrow> (Inr (collection_names D), called ListCollectionNames D))"

text \<open>
  Modelled from the spec: \<open>database.create_document\<close> (\<open>database.py\<close> is not among the
  sources). It raises when no database is configured, and otherwise inserts the record
  into the named collection and returns the new identity as text.
\<close>

definition create_document_order ::
  "'f database option \<Rightarrow> 'f Order \<Rightarrow> (exn + string) \<times> 'f database option" where
  "create_document_order db ord =
     (case db of
        None \<Rightarrow> (Inl (Exn (ascii ''Database not available'')), None)
      | Some D \<Rightarrow>
          (case insert_one_order ord D of
             (Inl e, D') \<Rightarrow> (Inl e, Some D')
           | (Inr i, D') \<Rightarrow> (Inr (str_oid i), Some D')))"

subsection \<open>Helpers\<close>

datatype failure = HTTPException nat string | Unhandled

text \<open>
  \<open>to_str_id\<close> works on dict objects, so it is modelled over a heap of dicts: an
  address is an index into the heap, \<open>doc.copy()\<close> allocates a new cell, and the two
  updates that follow write to that cell. An address handed to a function names an
  allocated cell.
\<close>

type_synonym addr = nat
type_synonym 'f heap = "'f document list"

definition dict_copy :: "addr \<Rightarrow> 'f heap \<Rightarrow> addr \<times> 'f heap" where
  "dict_copy a h = (length h, h @ [h ! a])"

definition to_str_id :: "'f float_ops \<Rightarrow> addr \<Rightarrow> 'f heap \<Rightarrow> addr \<times> 'f heap" where
  "to_str_id ops doc h =
     (case dict_copy doc h of
        (d, h1) \<Rightarrow>
          (case map_of (h1 ! d) ''_id'' of
             None \<Rightarrow> (d, h1)
           | Some v \<Rightarrow>
               if py_truthy ops v
               then (let h2 = h1[d := AList.delete ''_id'' (h1 ! d)];
                         h3 = h2[d := AList.update ''id'' (PStr (py_str ops v)) (h2 ! d)]
                     in (d, h3))
               else (d, h1)))"


text \<open>The list comprehension \<open>[to_str_id(p) for p in products]\<close>.\<close>

fun to_str_id_each :: "'f float_ops \<Rightarrow> addr list \<Rightarrow> 'f heap \<Rightarrow> addr list \<times> 'f heap" where
  "to_str_id_each ops [] h = ([], h)"
| "to_str_id_each ops (p # ps) h =
     (case to_str_id ops p h of
        (d, h1) \<Rightarrow> (case to_str_id_each ops ps h1 of (ds, h2) \<Rightarrow> (d # ds, h2)))"

subsection \<open>Seeding\<close>

definition sample_products :: "'f float_ops \<Rightarrow> 'f document list" where
  "sample_products ops =
     [Product_dump ''Free-Range Eggs (12 pcs)''
        ''Fresh farm free-range chicken eggs. Rich yolks and great taste.''
        (flit ops 499 2) ''chicken'' True
        ''https://images.unsplash.com/photo-1517959105821-eaf2591984dd?q=80&w=1200&auto=format&fit=crop'',
      Product_dump ''Organic Eggs (12 pcs)''
        ''Certified organic eggs from pasture-raised hens.''
        (flit ops 599 2) ''organic'' True
        ''https://images.unsplash.com/photo-1518806118471-f28b20a1d79d?q=80&w=1200&auto=format&fit=crop'',
      Product_dump ''Omega-3 Enriched Eggs (12 pcs)''
        ''Omega-3 enriched for a healthier choice.''
        (flit ops 649 2) ''enriched'' True
        ''https://images.unsplash.com/photo-1522335789203-aabd1fc54bc9?q=80&w=1200&auto=format&fit=crop'',
      Product_dump ''Quail Eggs (24 pcs)''
        ''Delicate and delicious quail eggs.''
        (flit ops 749 2) ''quail'' True
        ''https://images.unsplash.com/photo-1577208288347-0d412b7a4f35?q=80&w=1200&auto=format&fit=crop'',
      Product_dump ''Duck Eggs (6 pcs)''
        ''Large and rich duck eggs for special recipes.''
        (flit ops 449 2) ''duck'' True
        ''https://images.unsplash.com/photo-1517957741781-7f3fd1563bb3?q=80&w=1200&auto=format&fit=crop'']"

text \<open>The loop \<open>for p in sample_products: db["product"].insert_one(\<dots>)\<close>.\<close>

fun insert_each :: "'f document list \<Rightarrow> 'f database \<Rightarrow> (failure + unit) \<times> 'f database" where
  "insert_each [] D = (Inr (), D)"
| "insert_each (p # ps) D =
     (case insert_one_product p D of
        (Inl e, D') \<Rightarrow> (Inl Unhandled, D')
      | (Inr i, D') \<Rightarrow> insert_each ps D')"

definition seed_products ::
  "'f float_ops \<Rightarrow> 'f database option \<Rightarrow> (failure + unit) \<times> 'f database option" where
  "seed_products ops db =
     (case db of
        None \<Rightarrow> (Inr (), None)
      | Some D \<Rightarrow>
          (case count_documents_product D of
             (Inl e, D1) \<Rightarrow> (Inl Unhandled, Some D1)
           | (Inr count, D1) \<Rightarrow>
               if count > 0 then (Inr (), Some D1)
               else (case insert_each (sample_products ops) D1 of
                       (r, D2) \<Rightarrow> (r, Some D2))))"

subsection \<open>Routes\<close>

definition demo_product :: "'f float_ops \<Rightarrow> 'f document" where
  "demo_product ops =
     [(''id'', PStr ''0''),
      (''title'', PStr ''Free-Range Eggs (12 pcs)''),
      (''description'', PStr ''Fresh farm free-range chicken eggs. Rich yolks and great taste.''),
      (''price'', PFloat (flit ops 499 2)),
      (''category'', PStr ''chicken''),
      (''in_stock'', PBool True),
      (''image'', PStr ''https://images.unsplash.com/photo-1517959105821-eaf2591984dd?q=80&w=1200&auto=format&fit=crop'')]"

text \<open>
  \<open>GET /api/products\<close>. The dicts \<open>find\<close> returns are the cells of the request's heap,
  in order; the response is what the returned cells hold.
\<close>

definition list_products ::
  "'f float_ops \<Rightarrow> 'f database option \<Rightarrow> (failure + 'f document list) \<times> 'f database option" where
  "list_products ops db =
     (case db of
        None \<Rightarrow> (Inr [demo_product ops], None)
      | Some D \<Rightarrow>
          (case find_product D of
             (Inl e, D1) \<Rightarrow> (Inl Unhandled, Some D1)
           | (Inr products, D1) \<Rightarrow>
               (case to_str_id_each ops [0..<length products] products of
                  (ds, h) \<Rightarrow> (Inr (map (\<lambda>d. h ! d) ds), Some D1))))"

text \<open>
  \<open>POST /api/orders\<close>. \<open>lookup_product\<close> is the \<open>try\<close>/\<open>except\<close> around the lookup:
  \<open>prod\<close> is \<open>None\<close> when \<open>ObjectId\<close> or \<open>find_one\<close> raises. \<open>not prod\<close> holds for \<open>None\<close>
  and for an empty dict.
\<close>

definition lookup_product :: "string \<Rightarrow> 'f database \<Rightarrow> 'f document option \<times> 'f database" where
  "lookup_product pid D =
     (case ObjectId pid of
        None \<Rightarrow> (None, D)
      | Some i \<Rightarrow>
          (case find_one_product i D of
             (Inl e, D') \<Rightarrow> (None, D')
           | (Inr found, D') \<Rightarrow> (found, D')))"

fun dict_truthy :: "'f document option \<Rightarrow> bool" where
  "dict_truthy None = False"
| "dict_truthy (Some d) = (d \<noteq> [])"

text \<open>The price and title of one item (the \<open>if db is None\<close> \<dots> \<open>else\<close> of the loop body).\<close>

definition resolve_item ::
  "'f float_ops \<Rightarrow> OrderItemInput \<Rightarrow> 'f database option
     \<Rightarrow> (failure + 'f \<times> 'f pyval) \<times> 'f database option" where
  "resolve_item ops it db =
     (case db of
        None \<Rightarrow> (Inr (flit ops 499 2, PStr ''Free-Range Eggs (12 pcs)''), None)
      | Some D \<Rightarrow>
          (case lookup_product (product_id it) D of
             (found, D') \<Rightarrow>
               if \<not> dict_truthy found
               then (Inl (HTTPException 404 (''Product not found: '' @ product_id it)), Some D')
               else (case py_float ops (dict_get (the found) ''price'' (PInt 0)) of
                       None \<Rightarrow> (Inl Unhandled, Some D')
                     | Some price \<Rightarrow>
                         (Inr (price, dict_get (the found) ''title'' (PStr ''Eggs'')), Some D'))))"

text \<open>
  The loop \<open>for it in payload.items\<close>, with its two accumulators. \<open>price * it.quantity\<close>
  is outside any handler, so its \<open>OverflowError\<close> ends the request unhandled.
\<close>

fun order_loop ::
  "'f float_ops \<Rightarrow> OrderItemInput list \<Rightarrow> 'f database option \<Rightarrow> 'f OrderItem list \<Rightarrow> 'f
     \<Rightarrow> (failure + 'f OrderItem list \<times> 'f) \<times> 'f database option" where
  "order_loop ops [] db its tot = (Inr (its, tot), db)"
| "order_loop ops (it # rest) db its tot =
     (case resolve_item ops it db of
        (Inl f, db') \<Rightarrow> (Inl f, db')
      | (Inr (price, title), db') \<Rightarrow>
          (case float_times_int ops price (quantity it) of
             None \<Rightarrow> (Inl Unhandled, db')
           | Some subtotal \<Rightarrow>
               (case OrderItem_new (product_id it) title price (quantity it) subtotal of
                  None \<Rightarrow> (Inl Unhandled, db')
                | Some item \<Rightarrow>
                    order_loop ops rest db' (its @ [item]) (fadd ops tot subtotal))))"

record 'f order_response =
  order_id :: string
  resp_status :: string
  resp_total :: 'f

definition create_order ::
  "'f float_ops \<Rightarrow> CreateOrderInput \<Rightarrow> 'f database option
     \<Rightarrow> (failure + 'f order_response) \<times> 'f database option" where
  "create_order ops payload db =
     (if items payload = [] then (Inl (HTTPException 400 ''No items in order''), db)
      else
        (case order_loop ops (items payload) db [] (flit ops 0 1) of
           (Inl f, db1) \<Rightarrow> (Inl f, db1)
         | (Inr (its, tot), db1) \<Rightarrow>
             (let st = (if payment_method payload = ''card'' then ''paid'' else ''pending'');
                  order_model =
                    \<lparr>order_items = its,
                     order_customer_name = customer_name payload,
                     order_email = email payload,
                     order_address = address payload,
                     order_payment_method =
                       (if payment_method payload \<in> set [''card'', ''cod'']
                        then payment_method payload else ''card''),
                     total_amount = fround ops tot 2,
                     status = st\<rparr>
              in case create_document_order db1 order_model of
                   (r, db2) \<Rightarrow>
                     (Inr \<lparr>order_id = (case r of Inl e \<Rightarrow> ''demo-order-id'' | Inr i \<Rightarrow> i),
                           resp_status = st,
                           resp_total = fround ops tot 2\<rparr>,
                      db2))))"

text \<open>
  \<open>GET /test\<close>. The three pictographs are U+2705, U+274C and U+26A0 U+FE0F. Nothing in
  the outer \<open>try\<close> block raises outside the inner one, so the outer handler has no
  branch here; its text is among \<open>database_statuses\<close> all the same. A pymongo database
  has a \<open>name\<close>, so \<open>hasattr(db, 'name')\<close> holds. \<open>env\<close> is the process environment.
\<close>

definition check_mark :: ustr where "check_mark = [0x2705]"
definition cross_mark :: ustr where "cross_mark = [0x274C]"
definition warning_sign :: ustr where "warning_sign = [0x26A0, 0xFE0F]"

record test_response =
  backend :: ustr
  database :: ustr
  database_url :: "ustr option"
  database_name :: "ustr option"
  connection_status :: ustr
  collections :: "string list"

fun str_exn :: "exn \<Rightarrow> ustr" where
  "str_exn (Exn m) = m"

definition getenv_set :: "(string \<Rightarrow> string option) \<Rightarrow> string \<Rightarrow> bool" where
  "getenv_set env k = (case env k of None \<Rightarrow> False | Some v \<Rightarrow> v \<noteq> [])"

definition test_database ::
  "(string \<Rightarrow> string option) \<Rightarrow> 'f database option
     \<Rightarrow> (failure + test_response) \<times> 'f database option" where
  "test_database env db =
     (let response =
            \<lparr>backend = check_mark @ ascii '' Running'',
             database = cross_mark @ ascii '' Not Available'',
             database_url = None,
             database_name = None,
             connection_status = ascii ''Not Connected'',
             collections = []\<rparr>;
          (response, db') =
            (case db of
               Some D \<Rightarrow>
                 (let response = response
                        \<lparr>database := check_mark @ ascii '' Available'',
                         database_url := Some (check_mark @ ascii '' Configured''),
                         database_name := Some (ascii (db_name D)),
                         connection_status := ascii ''Connected''\<rparr>
                  in case list_collection_names D of
                       (Inr cs, D') \<Rightarrow>
                         (response\<lparr>collections := take 10 cs,
                                   database := check_mark @ ascii '' Connected & Working''\<rparr>,
                          Some D')
                     | (Inl e, D') \<Rightarrow>
                         (response\<lparr>database := warning_sign @ ascii ''  Connected but Error: ''
                                                @ take 50 (str_exn e)\<rparr>,
                          Some D'))
             | None \<Rightarrow>
                 (response\<lparr>database := warning_sign @ ascii ''  Available but not initialized''\<rparr>,
                  None));
          response = response
            \<lparr>database_url := Some (if getenv_set env ''DATABASE_URL''
                                   then check_mark @ ascii '' Set''
                                   else cross_mark @ ascii '' Not Set'')\<rparr>;
          response = response
            \<lparr>database_name := Some (if getenv_set env ''DATABASE_NAME''
                                    then check_mark @ ascii '' Set''
                                    else cross_mark @ ascii '' Not Set'')\<rparr>
      in (Inr response, db'))"

subsection \<open>An arithmetic and a store to run the model on\<close>

text \<open>
  Exact decimal arithmetic over the rationals: literals and sums are exact, rounding is
  to the nearest multiple with ties to the even one, a float is written with its
  fractional digits, and \<open>float\<close> of a text reads an unsigned decimal numeral. An
  integer converts when it is within the range of a double: Python raises
  \<open>OverflowError\<close> from \<open>2**1024 - 2**970\<close> on, in either sign. It serves to evaluate the
  model on examples.
\<close>

definition double_int_limit :: int where
  "double_int_limit = 2 ^ 1024 - 2 ^ 970"

definition round_half_even :: "rat \<Rightarrow> int" where
  "round_half_even y =
     (let f = \<lfloor>y\<rfloor>; r = y - of_int f
      in if r < 1 / 2 then f else if 1 / 2 < r then f + 1 else if even f then f else f + 1)"

fun frac_digits :: "nat \<Rightarrow> rat \<Rightarrow> string" where
  "frac_digits 0 r = []"
| "frac_digits (Suc n) r =
     (if r = 0 then []
      else (''0123456789'' ! nat \<lfloor>r * 10\<rfloor>) # frac_digits n (r * 10 - of_int \<lfloor>r * 10\<rfloor>))"

definition str_rat :: "rat \<Rightarrow> string" where
  "str_rat x =
     (let a = \<bar>x\<bar>; f = a - of_int \<lfloor>a\<rfloor>
      in (if x < 0 then ''-'' else []) @ str_nat (nat \<lfloor>a\<rfloor>) @ ''.''
         @ (if f = 0 then ''0'' else frac_digits 17 f))"

fun digits_value :: "string \<Rightarrow> nat \<Rightarrow> nat option" where
  "digits_value [] acc = Some acc"
| "digits_value (c # cs) acc =
     (if c \<in> set ''0123456789'' then digits_value cs (acc * 10 + (of_char c - 48)) else None)"

definition rat_of_str :: "string \<Rightarrow> rat option" where
  "rat_of_str s =
     (let a = takeWhile (\<lambda>c. c \<noteq> CHR ''.'') s; b = drop (Suc (length a)) s
      in if a = [] \<or> (length a < length s \<and> b = []) then None
         else (case (digits_value a 0, digits_value b 0) of
                 (Some m, Some n) \<Rightarrow> Some (of_nat m + of_nat n / 10 ^ length b)
               | _ \<Rightarrow> None))"

definition exact_ops :: "rat float_ops" where
  "exact_ops =
     \<lparr>flit = (\<lambda>m e. of_int m / 10 ^ e),
      ffrom_int = (\<lambda>n. if \<bar>n\<bar> < double_int_limit then Some (of_int n) else None),
      ffrom_str = rat_of_str,
      fadd = (+),
      fmul = (*),
      fround = (\<lambda>x n. of_int (round_half_even (x * 10 ^ n)) / 10 ^ n),
      fnonzero = (\<lambda>x. x \<noteq> 0),
      fstr = str_rat\<rparr>"

text \<open>A reachable store with two products and no order, and the same store without products.\<close>

definition shop :: "rat database" where
  "shop =
     \<lparr>db_name = ''eggstore'',
      product_coll =
        [[(''_id'', POid (Oid ''000000000000000000000000'')),
          (''title'', PStr ''Free-Range Eggs (12 pcs)''), (''price'', PFloat (499 / 100))],
         [(''_id'', POid (Oid ''000000000000000000000001'')),
          (''title'', PStr ''Duck Eggs (6 pcs)''), (''price'', PFloat (449 / 100))]],
      order_coll = [],
      other_colls = [],
      next_oid = 2,
      faults = (\<lambda>c. None),
      journal = []\<rparr>"

definition empty_shop :: "rat database" where
  "empty_shop = shop\<lparr>product_coll := [], next_oid := 0\<rparr>"

definition basket :: "OrderItemInput list" where
  "basket = [\<lparr>product_id = ''000000000000000000000001'', quantity = 3\<rparr>,
             \<lparr>product_id = ''000000000000000000000000'', quantity = 2\<rparr>]"

text \<open>Requests: an order of the two products, and one whose second and third references do not resolve.\<close>

definition ann_order :: CreateOrderInput where
  "ann_order = CreateOrderInput_new basket ''Ann'' ''ann@example.org'' ''1 Hen Road'' None"

definition stray_basket :: "OrderItemInput list" where
  "stray_basket = [\<lparr>product_id = ''000000000000000000000001'', quantity = 1\<rparr>,
                   \<lparr>product_id = ''not-an-id'', quantity = 2\<rparr>,
                   \<lparr>product_id = ''00000000000000000000beef'', quantity = 1\<rparr>]"

definition stray_order :: CreateOrderInput where
  "stray_order = CreateOrderInput_new stray_basket ''Bob'' ''bob@example.org'' ''2 Coop Lane'' (Some ''cod'')"



definition paypal_order :: CreateOrderInput where
  "paypal_order =
     CreateOrderInput_new basket ''Ann'' ''ann@example.org'' ''1 Hen Road'' (Some ''paypal'')"



subsection \<open>Notions the properties are stated with\<close>

text \<open>
  What the lookup of \<open>create_order\<close> finds for a \<open>product_id\<close>, read off the store without
  calling it, and the calls the lookup makes. A reference is resolvable when a stored
  product is found; a malformed identity, a missing product and a failing lookup call are
  the three ways it is not.
\<close>

definition stored_product :: "'f database \<Rightarrow> string \<Rightarrow> 'f document option" where
  "stored_product D pid =
     (case ObjectId pid of
        None \<Rightarrow> None
      | Some i \<Rightarrow>
          (case faults D (FindOne ''product'' i) of
             Some m \<Rightarrow> None
           | None \<Rightarrow> find (\<lambda>d. map_of d ''_id'' = Some (POid i)) (product_coll D)))"

definition lookup_calls :: "OrderItemInput \<Rightarrow> store_call list" where
  "lookup_calls it =
     (case ObjectId (product_id it) of None \<Rightarrow> [] | Some i \<Rightarrow> [FindOne ''product'' i])"

definition resolvable :: "'f database \<Rightarrow> OrderItemInput \<Rightarrow> bool" where
  "resolvable D it = (stored_product D (product_id it) \<noteq> None)"

text \<open>
  A stored product has the shape of the \<open>Product\<close> schema where the order code reads it:
  \<open>price\<close>, when present, is a number (a float, or an integer that converts to one; the
  default \<open>0\<close> converts when it is absent) and \<open>title\<close>, when present, is a text.
\<close>

definition has_schema :: "'f float_ops \<Rightarrow> 'f document \<Rightarrow> bool" where
  "has_schema ops d =
     ((case map_of d ''price'' of
         None \<Rightarrow> ffrom_int ops 0 \<noteq> None
       | Some (PFloat x) \<Rightarrow> True
       | Some (PInt n) \<Rightarrow> ffrom_int ops n \<noteq> None
       | Some _ \<Rightarrow> False)
      \<and> (case map_of d ''title'' of
            None \<Rightarrow> True | Some (PStr t) \<Rightarrow> True | Some _ \<Rightarrow> False))"

definition order_ready ::
  "'f float_ops \<Rightarrow> 'f database option \<Rightarrow> OrderItemInput list \<Rightarrow> bool" where
  "order_ready ops db its =
     (case db of
        None \<Rightarrow> True
      | Some D \<Rightarrow> list_all (has_schema ops) (product_coll D) \<and> list_all (resolvable D) its)"

text \<open>The quantities of the items convert to floats: \<open>price * quantity\<close> does not overflow.\<close>

definition quantities_convertible :: "'f float_ops \<Rightarrow> OrderItemInput list \<Rightarrow> bool" where
  "quantities_convertible ops its = list_all (\<lambda>it. ffrom_int ops (quantity it) \<noteq> None) its"

text \<open>The price an item resolves to: the fallback price without a store, the stored one with it.\<close>

definition resolved_price ::
  "'f float_ops \<Rightarrow> 'f database option \<Rightarrow> OrderItemInput \<Rightarrow> 'f option" where
  "resolved_price ops db it =
     (case db of
        None \<Rightarrow> Some (flit ops 499 2)
      | Some D \<Rightarrow>
          (case stored_product D (product_id it) of
             None \<Rightarrow> None
           | Some d \<Rightarrow> py_float ops (dict_get d ''price'' (PInt 0))))"


text \<open>A store after further calls, and one line of an order as the loop body builds it.\<close>

definition journaled :: "store_call list \<Rightarrow> 'f database option \<Rightarrow> 'f database option" where
  "journaled js db = map_option (\<lambda>D. D\<lparr>journal := journal D @ js\<rparr>) db"

definition order_line ::
  "'f float_ops \<Rightarrow> 'f database option \<Rightarrow> OrderItemInput \<Rightarrow> failure + 'f OrderItem" where
  "order_line ops db it =
     (case fst (resolve_item ops it db) of
        Inl f \<Rightarrow> Inl f
      | Inr (price, title) \<Rightarrow>
          (case float_times_int ops price (quantity it) of
             None \<Rightarrow> Inl Unhandled
           | Some subtotal \<Rightarrow>
               (case OrderItem_new (product_id it) title price (quantity it) subtotal of
                  None \<Rightarrow> Inl Unhandled
                | Some item \<Rightarrow> Inr item)))"

text \<open>What an order line built for an input item holds.\<close>

definition line_of ::
  "'f float_ops \<Rightarrow> 'f database option \<Rightarrow> OrderItemInput \<Rightarrow> 'f OrderItem \<Rightarrow> bool" where
  "line_of ops db it item =
     (item_product_id item = product_id it \<and> item_quantity item = quantity it
      \<and> resolved_price ops db it = Some (item_price item)
      \<and> float_times_int ops (item_price item) (item_quantity item) = Some (item_subtotal item))"

text \<open>
  A document with an identity \<open>to_str_id\<close> acts on, and what the transformed document
  \<open>dst\<close> holds for a source \<open>src\<close>: no \<open>_id\<close>, the identity's text under \<open>id\<close>, and every
  other field as in the source.
\<close>

definition has_identity :: "'f float_ops \<Rightarrow> 'f document \<Rightarrow> bool" where
  "has_identity ops d = (case map_of d ''_id'' of None \<Rightarrow> False | Some v \<Rightarrow> py_truthy ops v)"

definition id_renamed :: "'f float_ops \<Rightarrow> 'f document \<Rightarrow> 'f document \<Rightarrow> bool" where
  "id_renamed ops src dst =
     (map_of dst ''_id'' = None
      \<and> map_of dst ''id'' = Some (PStr (py_str ops (dict_get src ''_id'' PNone)))
      \<and> (\<forall>k. k \<noteq> ''_id'' \<and> k \<noteq> ''id'' \<longrightarrow> map_of dst k = map_of src k))"

text \<open>The two prefixes of \<open>database_statuses\<close> that are followed by a message.\<close>

definition connected_but_error :: ustr where
  "connected_but_error = warning_sign @ ascii ''  Connected but Error: ''"

definition error_prefix :: ustr where
  "error_prefix = cross_mark @ ascii '' Error: ''"

text \<open>
  The texts the \<open>database\<close> field is given anywhere in \<open>test_database\<close>: four fixed ones,
  and the two prefixes followed by at most 50 code points of an exception's message.
\<close>

definition database_statuses :: "ustr \<Rightarrow> bool" where
  "database_statuses s =
     (s = cross_mark @ ascii '' Not Available''
      \<or> s = check_mark @ ascii '' Available''
      \<or> s = check_mark @ ascii '' Connected & Working''
      \<or> s = warning_sign @ ascii ''  Available but not initialized''
      \<or> (take (length connected_but_error) s = connected_but_error
          \<and> length s \<le> length connected_but_error + 50)
      \<or> (take (length error_prefix) s = error_prefix \<and> length s \<le> length error_prefix + 50))"

section \<open>Properties\<close>

subsection \<open>Lemmas about the order loop\<close>

lemma journaled_None: "journaled js None = None"
  by (simp add: journaled_def)

lemma journaled_Nil: "journaled [] db = db"
  by (cases db) (simp_all add: journaled_def)

lemma journaled_journaled: "journaled js2 (journaled js1 db) = journaled (js1 @ js2) db"
  by (cases db) (simp_all add: journaled_def)

lemma stored_product_journal:
  "stored_product (D\<lparr>journal := j\<rparr>) pid = stored_product D pid"
  by (simp add: stored_product_def split: option.splits)

lemma lookup_product_eq:
  "lookup_product (product_id it) D
     = (stored_product D (product_id it), D\<lparr>journal := journal D @ lookup_calls it\<rparr>)"
  by (simp add: lookup_product_def stored_product_def lookup_calls_def find_one_product_def
        called_def split: option.splits)

lemma stored_product_mem:
  "stored_product D pid = Some d \<Longrightarrow> d \<in> set (product_coll D) \<and> d \<noteq> []"
  by (auto simp: stored_product_def find_Some_iff split: option.splits)

lemma resolve_item_snd:
  "snd (resolve_item ops it db) = journaled (lookup_calls it) db"
  by (cases db)
     (simp_all add: resolve_item_def journaled_def lookup_product_eq split: option.splits)

lemma resolve_item_fst_journaled:
  "fst (resolve_item ops it (journaled js db)) = fst (resolve_item ops it db)"
  by (cases db)
     (simp_all add: resolve_item_def journaled_def lookup_product_eq stored_product_journal
        split: option.splits)

lemma order_line_journaled: "order_line ops (journaled js db) = order_line ops db"
  by (rule ext) (simp add: order_line_def resolve_item_fst_journaled)

lemma order_loop_step:
  "order_loop ops (it # rest) db its tot =
     (case order_line ops db it of
        Inl f \<Rightarrow> (Inl f, journaled (lookup_calls it) db)
      | Inr item \<Rightarrow>
          order_loop ops rest (journaled (lookup_calls it) db) (its @ [item])
            (fadd ops tot (item_subtotal item)))"
proof -
  obtain r db' where r: "resolve_item ops it db = (r, db')"
    by (cases "resolve_item ops it db")
  have db': "db' = journaled (lookup_calls it) db"
    using resolve_item_snd [of ops it db] r by simp
  show ?thesis
    using r db'
    by (auto simp: order_line_def OrderItem_new_def split: sum.splits option.splits pyval.splits)
qed


lemma order_loop_stop:
  "map (order_line ops db) pre = map Inr new \<Longrightarrow> order_line ops db bad = Inl f \<Longrightarrow>
   order_loop ops (pre @ bad # post) db acc tot =
     (Inl f, journaled (concat (map lookup_calls (pre @ [bad]))) db)"
proof (induction pre arbitrary: new db acc tot)
  case Nil
  then show ?case by (simp add: order_loop_step del: order_loop.simps)
next
  case (Cons it rest)
  then obtain item new' where new: "new = item # new'" and
    l: "order_line ops db it = Inr item" and
    rest: "map (order_line ops db) rest = map Inr new'"
    by (cases new) auto
  have a: "map (order_line ops (journaled (lookup_calls it) db)) rest = map Inr new'"
    using rest by (simp add: order_line_journaled)
  have b: "order_line ops (journaled (lookup_calls it) db) bad = Inl f"
    using Cons.prems(2) by (simp add: order_line_journaled)
  from Cons.IH [OF a b] show ?case
    by (simp add: order_loop_step l journaled_journaled del: order_loop.simps)
qed

lemma order_line_unresolvable:
  "\<not> resolvable D it \<Longrightarrow>
   order_line ops (Some D) it = Inl (HTTPException 404 (''Product not found: '' @ product_id it))"
  by (simp add: order_line_def resolve_item_def lookup_product_eq resolvable_def)

lemma has_schema_price:
  "has_schema ops d \<Longrightarrow> \<exists>x. py_float ops (dict_get d ''price'' (PInt 0)) = Some x"
  by (auto simp: has_schema_def dict_get_def split: option.splits pyval.splits)

lemma has_schema_title:
  "has_schema ops d \<Longrightarrow> \<exists>t. dict_get d ''title'' (PStr ''Eggs'') = PStr t"
  by (auto simp: has_schema_def dict_get_def split: option.splits pyval.splits)

lemma order_line_resolvable:
  assumes "resolvable D it" "list_all (has_schema ops) (product_coll D)" "1 \<le> quantity it"
    and "ffrom_int ops (quantity it) \<noteq> None"
  shows "\<exists>item. order_line ops (Some D) it = Inr item \<and> line_of ops (Some D) it item"
proof -
  from assms(1) obtain d where d: "stored_product D (product_id it) = Some d"
    by (auto simp: resolvable_def)
  from assms(4) obtain q where q: "ffrom_int ops (quantity it) = Some q" by auto
  from stored_product_mem [OF d] assms(2) have hs: "has_schema ops d" and ne: "d \<noteq> []"
    by (auto simp: list_all_iff)
  from has_schema_price [OF hs] obtain x where x: "py_float ops (dict_get d ''price'' (PInt 0)) = Some x"
    by blast
  from has_schema_title [OF hs] obtain t where t: "dict_get d ''title'' (PStr ''Eggs'') = PStr t"
    by blast
  show ?thesis
    using d ne x t q assms(3)
    by (simp add: order_line_def resolve_item_def lookup_product_eq OrderItem_new_def
          line_of_def resolved_price_def float_times_int_def)
qed

lemma order_line_fallback:
  assumes "1 \<le> quantity it" "ffrom_int ops (quantity it) \<noteq> None"
  shows "\<exists>item. order_line ops None it = Inr item \<and> line_of ops None it item"
  using assms
  by (auto simp: order_line_def resolve_item_def OrderItem_new_def line_of_def resolved_price_def
        float_times_int_def)

lemma order_lines_ready:
  assumes "order_ready ops db its" "valid_items its" "quantities_convertible ops its"
  shows "\<exists>new. map (order_line ops db) its = map Inr new \<and> list_all2 (line_of ops db) its new"
  using assms
proof (induction its)
  case Nil
  then show ?case by simp
next
  case (Cons it rest)
  have "order_ready ops db rest" "valid_items rest" "quantities_convertible ops rest"
    "1 \<le> quantity it" and cv: "ffrom_int ops (quantity it) \<noteq> None"
    using Cons.prems
    by (auto simp: order_ready_def valid_items_def quantities_convertible_def split: option.splits)
  with Cons.IH obtain new where new: "map (order_line ops db) rest = map Inr new"
    "list_all2 (line_of ops db) rest new" by blast
  have "\<exists>item. order_line ops db it = Inr item \<and> line_of ops db it item"
  proof (cases db)
    case None
    then show ?thesis using order_line_fallback [OF \<open>1 \<le> quantity it\<close> cv] by simp
  next
    case (Some D)
    then show ?thesis
      using order_line_resolvable [of D it ops] Cons.prems(1) \<open>1 \<le> quantity it\<close> cv
      by (simp add: order_ready_def)
  qed
  then obtain item where "order_line ops db it = Inr item" "line_of ops db it item" by blast
  with new have "map (order_line ops db) (it # rest) = map Inr (item # new)
      \<and> list_all2 (line_of ops db) (it # rest) (item # new)" by simp
  then show ?case by blast
qed


lemma order_loop_Inl:
  "order_loop ops its db acc tot = (Inl f, db') \<Longrightarrow>
   \<exists>pre bad post new. its = pre @ bad # post \<and> map (order_line ops db) pre = map Inr new
      \<and> order_line ops db bad = Inl f"
proof (induction its arbitrary: db acc tot)
  case Nil
  then show ?case by simp
next
  case (Cons it rest)
  show ?case
  proof (cases "order_line ops db it")
    case (Inl g)
    with Cons.prems have "g = f" by (simp add: order_loop_step del: order_loop.simps)
    with Inl have "it # rest = [] @ it # rest \<and> map (order_line ops db) [] = map Inr []
        \<and> order_line ops db it = Inl f" by simp
    then show ?thesis by blast
  next
    case (Inr item)
    with Cons.prems have "order_loop ops rest (journaled (lookup_calls it) db) (acc @ [item])
        (fadd ops tot (item_subtotal item)) = (Inl f, db')"
      by (simp add: order_loop_step del: order_loop.simps)
    from Cons.IH [OF this] obtain pre bad post new where
      "rest = pre @ bad # post" "map (order_line ops db) pre = map Inr new"
      "order_line ops db bad = Inl f"
      by (auto simp: order_line_journaled)
    with Inr have "it # rest = (it # pre) @ bad # post
        \<and> map (order_line ops db) (it # pre) = map Inr (item # new)
        \<and> order_line ops db bad = Inl f" by simp
    then show ?thesis by blast
  qed
qed

lemma dict_truthy_stored_product:
  "dict_truthy (stored_product D pid) = (stored_product D pid \<noteq> None)"
  using stored_product_mem [of D pid] by (cases "stored_product D pid") auto

lemma order_line_HTTPException:
  "order_line ops db it = Inl (HTTPException c d) \<Longrightarrow>
   \<exists>D. db = Some D \<and> \<not> resolvable D it \<and> c = 404 \<and> d = ''Product not found: '' @ product_id it"
  by (cases db)
     (auto simp: order_line_def resolve_item_def lookup_product_eq resolvable_def
        dict_truthy_stored_product
        split: option.splits sum.splits if_splits prod.splits)

lemma order_line_Inr_resolvable:
  "order_line ops (Some D) it = Inr item \<Longrightarrow> resolvable D it"
  using order_line_unresolvable [of D it ops] by auto

lemma order_lines_resolvable:
  "map (order_line ops (Some D)) pre = map Inr new \<Longrightarrow> list_all (resolvable D) pre"
proof (induction pre arbitrary: new)
  case Nil
  then show ?case by simp
next
  case (Cons it pre)
  then obtain item new' where "order_line ops (Some D) it = Inr item"
    "map (order_line ops (Some D)) pre = map Inr new'"
    by (cases new) auto
  with Cons.IH show ?case by (auto dest: order_line_Inr_resolvable)
qed

lemma create_document_order_Some:
  "create_document_order (Some D) ord =
     (case faults D (InsertOne ''order'') of
        Some m \<Rightarrow> (Inl (Exn m), Some (D\<lparr>journal := journal D @ [InsertOne ''order'']\<rparr>))
      | None \<Rightarrow>
          (Inr (str_oid (oid_of_nat (next_oid D))),
           Some (D\<lparr>order_coll := order_coll D @ [(oid_of_nat (next_oid D), ord)],
                   next_oid := Suc (next_oid D),
                   journal := journal D @ [InsertOne ''order'']\<rparr>)))"
  by (simp add: create_document_order_def insert_one_order_def called_def split: option.splits)

text \<open>Whatever its outcome, the loop only adds to the journal.\<close>

lemma order_loop_journal_only:
  "\<exists>js. snd (order_loop ops its db acc tot) = journaled js db"
proof (induction its arbitrary: db acc tot)
  case Nil
  show ?case using journaled_Nil [of db] by (metis order_loop.simps(1) snd_conv)
next
  case (Cons it rest)
  show ?case
  proof (cases "order_line ops db it")
    case (Inl f)
    then show ?thesis
      by (simp add: order_loop_step del: order_loop.simps) blast
  next
    case (Inr item)
    from Cons.IH [of "journaled (lookup_calls it) db" "acc @ [item]" "fadd ops tot (item_subtotal item)"]
    obtain js where "snd (order_loop ops rest (journaled (lookup_calls it) db) (acc @ [item])
        (fadd ops tot (item_subtotal item))) = journaled js (journaled (lookup_calls it) db)"
      by blast
    then show ?thesis
      using Inr by (simp add: order_loop_step journaled_journaled del: order_loop.simps) blast
  qed
qed

lemma order_loop_Some:
  "\<exists>js. snd (order_loop ops its (Some D) acc tot) = Some (D\<lparr>journal := journal D @ js\<rparr>)"
  using order_loop_journal_only [of ops its "Some D" acc tot] by (simp add: journaled_def)


subsection \<open>Lemmas about seeding and listing\<close>

lemma insert_one_product_ok:
  "faults D (InsertOne ''product'') = None \<Longrightarrow>
   insert_one_product doc D =
     (Inr (oid_of_nat (next_oid D)),
      D\<lparr>product_coll := product_coll D @ [(''_id'', POid (oid_of_nat (next_oid D))) # doc],
        next_oid := Suc (next_oid D),
        journal := journal D @ [InsertOne ''product'']\<rparr>)"
  by (simp add: insert_one_product_def called_def)

lemma insert_each_ok:
  "faults D (InsertOne ''product'') = None \<Longrightarrow>
   \<exists>D'. insert_each ps D = (Inr (), D')
        \<and> map (\<lambda>d. map_of d ''title'') (product_coll D')
            = map (\<lambda>d. map_of d ''title'') (product_coll D) @ map (\<lambda>d. map_of d ''title'') ps
        \<and> order_coll D' = order_coll D"
proof (induction ps arbitrary: D)
  case Nil
  then show ?case by simp
next
  case (Cons p ps)
  let ?D1 = "D\<lparr>product_coll := product_coll D @ [(''_id'', POid (oid_of_nat (next_oid D))) # p],
        next_oid := Suc (next_oid D),
        journal := journal D @ [InsertOne ''product'']\<rparr>"
  have "faults ?D1 (InsertOne ''product'') = None" using Cons.prems by simp
  from Cons.IH [OF this] obtain D' where
    "insert_each ps ?D1 = (Inr (), D')"
    "map (\<lambda>d. map_of d ''title'') (product_coll D')
       = map (\<lambda>d. map_of d ''title'') (product_coll ?D1) @ map (\<lambda>d. map_of d ''title'') ps"
    "order_coll D' = order_coll ?D1" by blast
  then show ?case
    using Cons.prems by (simp add: insert_one_product_ok)
qed

lemma sample_titles:
  "map (\<lambda>d. map_of d ''title'') (sample_products ops)
     = map (Some \<circ> PStr) [''Free-Range Eggs (12 pcs)'', ''Organic Eggs (12 pcs)'',
         ''Omega-3 Enriched Eggs (12 pcs)'', ''Quail Eggs (24 pcs)'', ''Duck Eggs (6 pcs)'']"
  by (simp add: sample_products_def Product_dump_def)

lemma list_products_collections:
  "map_option product_coll (snd (list_products ops db)) = map_option product_coll db
   \<and> map_option order_coll (snd (list_products ops db)) = map_option order_coll db"
  by (cases db)
     (auto simp: list_products_def find_product_def called_def split: option.splits prod.splits)

subsection \<open>Lemmas about diagnostics and identities\<close>

lemma status_connected_but_error:
  "database_statuses (warning_sign @ ascii ''  Connected but Error: '' @ take 50 m)"
proof -
  have e: "warning_sign @ ascii ''  Connected but Error: '' @ take 50 m
          = connected_but_error @ take 50 m"
    by (simp add: connected_but_error_def)
  have "take (length connected_but_error) (connected_but_error @ take 50 m) = connected_but_error
        \<and> length (connected_but_error @ take 50 m) \<le> length connected_but_error + 50"
    by simp
  then show ?thesis
    unfolding e database_statuses_def by blast
qed

lemma to_str_id_eq:
  assumes "doc < length h" "map_of (h ! doc) ''_id'' = Some v" "py_truthy ops v"
  shows "to_str_id ops doc h
           = (length h, h @ [AList.update ''id'' (PStr (py_str ops v)) (AList.delete ''_id'' (h ! doc))])"
  using assms
  by (simp add: to_str_id_def dict_copy_def nth_append Let_def)

lemma id_renamed_update:
  assumes "map_of src ''_id'' = Some v"
  shows "id_renamed ops src (AList.update ''id'' (PStr (py_str ops v)) (AList.delete ''_id'' src))"
  using assms
  by (simp add: id_renamed_def dict_get_def update_conv' delete_conv')

lemma to_str_id_each_eq:
  assumes "list_all (has_identity ops) src" "h = pre @ src @ new"
  shows "\<exists>out. to_str_id_each ops [length pre ..< length pre + length src] h
                 = ([length h ..< length h + length src], h @ out)
               \<and> list_all2 (id_renamed ops) src out"
  using assms
proof (induction src arbitrary: pre new h)
  case Nil
  then show ?case by simp
next
  case (Cons d src)
  from Cons.prems(1) obtain v where v: "map_of d ''_id'' = Some v" "py_truthy ops v"
    by (auto simp: has_identity_def split: option.splits)
  have d: "h ! length pre = d" using Cons.prems(2) by (simp add: nth_append)
  have lt: "length pre < length h" using Cons.prems(2) by simp
  let ?d' = "AList.update ''id'' (PStr (py_str ops v)) (AList.delete ''_id'' d)"
  have step: "to_str_id ops (length pre) h = (length h, h @ [?d'])"
    using to_str_id_eq [OF lt, of v ops] v d by simp
  have "list_all (has_identity ops) src" using Cons.prems(1) by simp
  moreover have "h @ [?d'] = (pre @ [d]) @ src @ (new @ [?d'])"
    using Cons.prems(2) by simp
  ultimately obtain out where
    out: "to_str_id_each ops [length (pre @ [d]) ..< length (pre @ [d]) + length src] (h @ [?d'])
            = ([length (h @ [?d']) ..< length (h @ [?d']) + length src], (h @ [?d']) @ out)"
      "list_all2 (id_renamed ops) src out"
    using Cons.IH [of "h @ [?d']" "pre @ [d]" "new @ [?d']"] by blast
  have upt: "[length pre ..< length pre + length (d # src)]
               = length pre # [length (pre @ [d]) ..< length (pre @ [d]) + length src]"
    by (subst upt_rec) simp
  have upt': "[length h ..< length h + length (d # src)]
               = length h # [length (h @ [?d']) ..< length (h @ [?d']) + length src]"
    by (subst upt_rec) simp
  have "to_str_id_each ops [length pre ..< length pre + length (d # src)] h
          = ([length h ..< length h + length (d # src)], h @ (?d' # out))"
    unfolding upt upt' using step out(1) by simp
  moreover have "list_all2 (id_renamed ops) (d # src) (?d' # out)"
    using out(2) id_renamed_update [OF v(1)] by simp
  ultimately show ?case by blast
qed

text \<open>The definitions that evaluating an example unfolds.\<close>

lemmas example_defs = CreateOrderInput_new_def basket_def shop_def valid_items_def
  order_ready_def has_schema_def resolvable_def stored_product_def ObjectId_def is_hex_def
  hex_lower_def quantities_convertible_def exact_ops_def double_int_limit_def

subsection \<open>Orders\<close>

text \<open>
  C4. A request whose \<open>items\<close> list is empty is answered with \<open>HTTPException\<close> 400, and the
  store is left exactly as it was: no order is persisted and no store call is made.
\<close>

theorem create_order_empty_items:
  assumes "items payload = []"
  shows "create_order ops payload db = (Inl (HTTPException 400 ''No items in order''), db)"
  using assms by (simp add: create_order_def)

theorem create_order_empty_items_witness:
  "items (CreateOrderInput_new [] ''Ann'' ''ann@example.org'' ''1 Hen Road'' None) = []
   \<and> create_order exact_ops (CreateOrderInput_new [] ''Ann'' ''ann@example.org'' ''1 Hen Road'' None)
        (Some shop)
      = (Inl (HTTPException 400 ''No items in order''), Some shop)"
proof -
  have h: "items (CreateOrderInput_new [] ''Ann'' ''ann@example.org'' ''1 Hen Road'' None) = []"
    by (simp add: CreateOrderInput_new_def)
  from create_order_empty_items [OF h] h show ?thesis by simp
qed






text \<open>
  C9. Items are processed in input order and the first failure ends the request. When
  the items before \<open>bad\<close> resolve and can be processed and \<open>bad\<close> does not resolve, the
  404 names \<open>bad\<close> whatever follows it, and the calls made are the lookups of the items
  before \<open>bad\<close>, in order, then the lookup of \<open>bad\<close> (none when its identity is malformed);
  no call is made for a later item. Conversely, whenever \<open>create_order\<close> answers 404, the
  detail names the first item that does not resolve and the calls made are exactly these.
\<close>

theorem create_order_first_unresolvable:
  "(items payload = pre @ bad # post
      \<and> list_all (resolvable D) pre \<and> \<not> resolvable D bad
      \<and> list_all (has_schema ops) (product_coll D) \<and> valid_items pre
      \<and> quantities_convertible ops pre \<longrightarrow>
      create_order ops payload (Some D)
        = (Inl (HTTPException 404 (''Product not found: '' @ product_id bad)),
           Some (D\<lparr>journal := journal D @ concat (map lookup_calls pre) @ lookup_calls bad\<rparr>)))
   \<and> (create_order ops payload db = (Inl (HTTPException 404 detail), db') \<longrightarrow>
      (\<exists>D' pre' bad' post'. db = Some D' \<and> items payload = pre' @ bad' # post'
          \<and> list_all (resolvable D') pre' \<and> \<not> resolvable D' bad'
          \<and> detail = ''Product not found: '' @ product_id bad'
          \<and> db' = Some (D'\<lparr>journal := journal D' @ concat (map lookup_calls pre')
                                    @ lookup_calls bad'\<rparr>)))"
proof (intro conjI impI)
  assume a: "items payload = pre @ bad # post
      \<and> list_all (resolvable D) pre \<and> \<not> resolvable D bad
      \<and> list_all (has_schema ops) (product_coll D) \<and> valid_items pre
      \<and> quantities_convertible ops pre"
  then have "order_ready ops (Some D) pre" "valid_items pre" "quantities_convertible ops pre"
    by (simp_all add: order_ready_def)
  from order_lines_ready [OF this] obtain new where
    new: "map (order_line ops (Some D)) pre = map Inr new" by blast
  from a have bad: "\<not> resolvable D bad" by simp
  show "create_order ops payload (Some D)
        = (Inl (HTTPException 404 (''Product not found: '' @ product_id bad)),
           Some (D\<lparr>journal := journal D @ concat (map lookup_calls pre) @ lookup_calls bad\<rparr>))"
    using order_loop_stop [OF new order_line_unresolvable [OF bad], of post "[]" "flit ops 0 1"] a
    by (simp add: create_order_def journaled_def)
next
  assume a: "create_order ops payload db = (Inl (HTTPException 404 detail), db')"
  then have ne: "items payload \<noteq> []"
    by (auto simp: create_order_def)
  obtain res db1 where loop:
    "order_loop ops (items payload) db [] (flit ops 0 1) = (res, db1)"
    by (cases "order_loop ops (items payload) db [] (flit ops 0 1)")
  from a ne loop have res: "res = Inl (HTTPException 404 detail)" and db1: "db1 = db'"
    by (cases res; auto simp: create_order_def Let_def split: prod.splits)+
  from order_loop_Inl [of ops "items payload" db "[]" "flit ops 0 1" "HTTPException 404 detail" db1]
    loop res
  obtain pre' bad' post' new where
    split: "items payload = pre' @ bad' # post'" and
    new: "map (order_line ops db) pre' = map Inr new" and
    bl: "order_line ops db bad' = Inl (HTTPException 404 detail)" by blast
  from order_line_HTTPException [OF bl] obtain D' where
    D': "db = Some D'" and bad: "\<not> resolvable D' bad'"
    and detail: "detail = ''Product not found: '' @ product_id bad'" by blast
  from new D' have pre: "list_all (resolvable D') pre'"
    using order_lines_resolvable [of ops D' pre' new] by simp
  from order_loop_stop [OF new bl, of post' "[]" "flit ops 0 1"] loop split db1 D'
  have "db' = Some (D'\<lparr>journal := journal D' @ concat (map lookup_calls pre')
                                    @ lookup_calls bad'\<rparr>)"
    by (simp add: journaled_def)
  with D' split pre bad detail
  show "\<exists>D' pre' bad' post'. db = Some D' \<and> items payload = pre' @ bad' # post'
          \<and> list_all (resolvable D') pre' \<and> \<not> resolvable D' bad'
          \<and> detail = ''Product not found: '' @ product_id bad'
          \<and> db' = Some (D'\<lparr>journal := journal D' @ concat (map lookup_calls pre')
                                    @ lookup_calls bad'\<rparr>)"
    by blast
qed

theorem create_order_first_unresolvable_witness:
  "(items stray_order = [stray_basket ! 0] @ (stray_basket ! 1) # [stray_basket ! 2]
      \<and> list_all (resolvable shop) [stray_basket ! 0] \<and> \<not> resolvable shop (stray_basket ! 1)
      \<and> list_all (has_schema exact_ops) (product_coll shop) \<and> valid_items [stray_basket ! 0]
      \<and> quantities_convertible exact_ops [stray_basket ! 0])
   \<and> create_order exact_ops stray_order (Some shop)
       = (Inl (HTTPException 404 (''Product not found: '' @ product_id (stray_basket ! 1))),
          Some (shop\<lparr>journal := journal shop @ concat (map lookup_calls [stray_basket ! 0])
                                  @ lookup_calls (stray_basket ! 1)\<rparr>))
   \<and> (\<exists>D' pre' bad' post'. Some shop = Some D' \<and> items stray_order = pre' @ bad' # post'
          \<and> list_all (resolvable D') pre' \<and> \<not> resolvable D' bad'
          \<and> ''Product not found: '' @ product_id (stray_basket ! 1)
              = ''Product not found: '' @ product_id bad'
          \<and> Some (shop\<lparr>journal := journal shop @ concat (map lookup_calls [stray_basket ! 0])
                                  @ lookup_calls (stray_basket ! 1)\<rparr>)
              = Some (D'\<lparr>journal := journal D' @ concat (map lookup_calls pre')
                                    @ lookup_calls bad'\<rparr>))"
proof -
  have h: "items stray_order = [stray_basket ! 0] @ (stray_basket ! 1) # [stray_basket ! 2]
      \<and> list_all (resolvable shop) [stray_basket ! 0] \<and> \<not> resolvable shop (stray_basket ! 1)
      \<and> list_all (has_schema exact_ops) (product_coll shop) \<and> valid_items [stray_basket ! 0]
      \<and> quantities_convertible exact_ops [stray_basket ! 0]"
    by (simp add: stray_order_def stray_basket_def example_defs)
  note t = create_order_first_unresolvable [of stray_order "[stray_basket ! 0]" "stray_basket ! 1"
      "[stray_basket ! 2]" shop exact_ops "Some shop"
      "''Product not found: '' @ product_id (stray_basket ! 1)"
      "Some (shop\<lparr>journal := journal shop @ concat (map lookup_calls [stray_basket ! 0])
                                  @ lookup_calls (stray_basket ! 1)\<rparr>)"]
  from t h have e: "create_order exact_ops stray_order (Some shop)
       = (Inl (HTTPException 404 (''Product not found: '' @ product_id (stray_basket ! 1))),
          Some (shop\<lparr>journal := journal shop @ concat (map lookup_calls [stray_basket ! 0])
                                  @ lookup_calls (stray_basket ! 1)\<rparr>))"
    by blast
  from t e h show ?thesis by blast
qed

text \<open>
  C8. When \<open>create_order\<close> succeeds with a store whose insert into \<open>order\<close> works, exactly
  one order is appended to the collection, the \<open>order_id\<close> of the response is its identity,
  and the \<open>total\<close> and \<open>status\<close> of the response are the \<open>total_amount\<close> and \<open>status\<close> stored.
\<close>

theorem create_order_response_matches_record:
  assumes "create_order ops payload (Some D) = (Inr r, db')"
    and "faults D (InsertOne ''order'') = None"
  shows "\<exists>D' ord. db' = Some D'
           \<and> order_coll D' = order_coll D @ [(oid_of_nat (next_oid D), ord)]
           \<and> order_id r = str_oid (oid_of_nat (next_oid D))
           \<and> total_amount ord = resp_total r \<and> status ord = resp_status r"
proof -
  obtain res db1 where loop: "order_loop ops (items payload) (Some D) [] (flit ops 0 1) = (res, db1)"
    by (cases "order_loop ops (items payload) (Some D) [] (flit ops 0 1)")
  from order_loop_Some [of ops "items payload" D "[]" "flit ops 0 1"] loop
  obtain js where db1: "db1 = Some (D\<lparr>journal := journal D @ js\<rparr>)" by auto
  from assms(1) have ne: "items payload \<noteq> []"
    by (auto simp: create_order_def)
  from assms(1) ne loop obtain its tot where res: "res = Inr (its, tot)"
    by (cases res) (auto simp: create_order_def)
  show ?thesis
    using assms ne loop res db1
    by (auto simp: create_order_def create_document_order_Some Let_def)
qed

theorem create_order_response_matches_record_witness:
  "create_order exact_ops ann_order (Some shop)
     = (Inr \<lparr>order_id = str_oid (oid_of_nat 2), resp_status = ''paid'', resp_total = 2345 / 100\<rparr>,
        snd (create_order exact_ops ann_order (Some shop)))
   \<and> faults shop (InsertOne ''order'') = None
   \<and> (\<exists>D' ord. snd (create_order exact_ops ann_order (Some shop)) = Some D'
           \<and> order_coll D' = order_coll shop @ [(oid_of_nat (next_oid shop), ord)]
           \<and> order_id \<lparr>order_id = str_oid (oid_of_nat 2), resp_status = ''paid'',
                        resp_total = (2345 / 100 :: rat)\<rparr>
               = str_oid (oid_of_nat (next_oid shop))
           \<and> total_amount ord
               = resp_total \<lparr>order_id = str_oid (oid_of_nat 2), resp_status = ''paid'',
                              resp_total = (2345 / 100 :: rat)\<rparr>
           \<and> status ord
               = resp_status \<lparr>order_id = str_oid (oid_of_nat 2), resp_status = ''paid'',
                              resp_total = (2345 / 100 :: rat)\<rparr>)"
proof -
  have h1: "create_order exact_ops ann_order (Some shop)
     = (Inr \<lparr>order_id = str_oid (oid_of_nat 2), resp_status = ''paid'', resp_total = 2345 / 100\<rparr>,
        snd (create_order exact_ops ann_order (Some shop)))"
    by (simp add: create_order_def ann_order_def example_defs exact_ops_def resolve_item_def lookup_product_def
          find_one_product_def called_def dict_get_def OrderItem_new_def create_document_order_def
          insert_one_order_def round_half_even_def float_times_int_def Let_def)
  have h2: "faults shop (InsertOne ''order'') = None" by (simp add: ann_order_def example_defs)
  from create_order_response_matches_record [OF h1 h2] h1 h2 show ?thesis by blast
qed

text \<open>
  C2. \<open>status\<close> is computed from the payment method as sent, while the stored
  \<open>payment_method\<close> is the normalised one. For the method \<open>"paypal"\<close> the response says
  \<open>"pending"\<close> and the stored order has \<open>payment_method\<close> \<open>"card"\<close> with \<open>status\<close> \<open>"pending"\<close>.
\<close>

theorem create_order_unknown_method:
  "fst (create_order exact_ops paypal_order (Some shop))
     = Inr \<lparr>order_id = str_oid (oid_of_nat 2), resp_status = ''pending'', resp_total = 2345 / 100\<rparr>
   \<and> map_option (map (order_payment_method \<circ> snd) \<circ> order_coll)
        (snd (create_order exact_ops paypal_order (Some shop))) = Some [''card'']
   \<and> map_option (map (status \<circ> snd) \<circ> order_coll)
        (snd (create_order exact_ops paypal_order (Some shop))) = Some [''pending'']"
  by (simp add: create_order_def paypal_order_def example_defs exact_ops_def resolve_item_def lookup_product_def
        find_one_product_def called_def dict_get_def OrderItem_new_def create_document_order_def
        insert_one_order_def round_half_even_def float_times_int_def Let_def)

subsection \<open>Degraded operation\<close>




subsection \<open>Seeding at start-up\<close>

text \<open>
  C6, as the code has it. Seeding is the work of \<open>seed_products\<close>, which the module runs
  once when it is loaded; listing never changes the product collection. \<open>seed_products\<close>
  does nothing without a database, leaves both collections as they are when the product
  collection holds a record, and on an empty product collection (the store calls
  succeeding) leaves exactly 5 products, with the five literal titles in order.
\<close>

theorem seed_products_startup:
  "seed_products ops None = (Inr (), None)
   \<and> (product_coll D1 \<noteq> [] \<and> faults D1 (CountDocuments ''product'') = None \<longrightarrow>
        (\<exists>D'. seed_products ops (Some D1) = (Inr (), Some D')
              \<and> product_coll D' = product_coll D1 \<and> order_coll D' = order_coll D1))
   \<and> (product_coll D2 = [] \<and> faults D2 (CountDocuments ''product'') = None
        \<and> faults D2 (InsertOne ''product'') = None \<longrightarrow>
        (\<exists>D'. seed_products ops (Some D2) = (Inr (), Some D')
              \<and> length (product_coll D') = 5
              \<and> map (\<lambda>d. map_of d ''title'') (product_coll D')
                  = map (Some \<circ> PStr) [''Free-Range Eggs (12 pcs)'', ''Organic Eggs (12 pcs)'',
                      ''Omega-3 Enriched Eggs (12 pcs)'', ''Quail Eggs (24 pcs)'', ''Duck Eggs (6 pcs)'']
              \<and> order_coll D' = order_coll D2))
   \<and> map_option product_coll (snd (list_products ops db)) = map_option product_coll db"
proof (intro conjI impI)
  show "seed_products ops None = (Inr (), None)" by (simp add: seed_products_def)
next
  assume "product_coll D1 \<noteq> [] \<and> faults D1 (CountDocuments ''product'') = None"
  then show "\<exists>D'. seed_products ops (Some D1) = (Inr (), Some D')
              \<and> product_coll D' = product_coll D1 \<and> order_coll D' = order_coll D1"
    by (simp add: seed_products_def count_documents_product_def called_def)
next
  assume a: "product_coll D2 = [] \<and> faults D2 (CountDocuments ''product'') = None
        \<and> faults D2 (InsertOne ''product'') = None"
  let ?D = "D2\<lparr>journal := journal D2 @ [CountDocuments ''product'']\<rparr>"
  have "faults ?D (InsertOne ''product'') = None" using a by simp
  from insert_each_ok [OF this, of "sample_products ops"] obtain D' where
    i: "insert_each (sample_products ops) ?D = (Inr (), D')" and
    t: "map (\<lambda>d. map_of d ''title'') (product_coll D')
       = map (\<lambda>d. map_of d ''title'') (product_coll ?D) @ map (\<lambda>d. map_of d ''title'') (sample_products ops)" and
    oc: "order_coll D' = order_coll ?D" by blast
  have t': "map (\<lambda>d. map_of d ''title'') (product_coll D')
       = map (Some \<circ> PStr) [''Free-Range Eggs (12 pcs)'', ''Organic Eggs (12 pcs)'',
                      ''Omega-3 Enriched Eggs (12 pcs)'', ''Quail Eggs (24 pcs)'', ''Duck Eggs (6 pcs)'']"
    using t a by (simp add: sample_titles)
  have "length (map (\<lambda>d. map_of d ''title'') (product_coll D')) = 5"
    unfolding t' by simp
  then have len: "length (product_coll D') = 5" by simp
  have "seed_products ops (Some D2) = (Inr (), Some D')"
    using a i by (simp add: seed_products_def count_documents_product_def called_def)
  with t' len oc show "\<exists>D'. seed_products ops (Some D2) = (Inr (), Some D')
              \<and> length (product_coll D') = 5
              \<and> map (\<lambda>d. map_of d ''title'') (product_coll D')
                  = map (Some \<circ> PStr) [''Free-Range Eggs (12 pcs)'', ''Organic Eggs (12 pcs)'',
                      ''Omega-3 Enriched Eggs (12 pcs)'', ''Quail Eggs (24 pcs)'', ''Duck Eggs (6 pcs)'']
              \<and> order_coll D' = order_coll D2" by simp
next
  show "map_option product_coll (snd (list_products ops db)) = map_option product_coll db"
    using list_products_collections by blast
qed

theorem seed_products_startup_witness:
  "seed_products exact_ops None = (Inr (), None)
   \<and> (product_coll shop \<noteq> [] \<and> faults shop (CountDocuments ''product'') = None)
   \<and> (\<exists>D'. seed_products exact_ops (Some shop) = (Inr (), Some D')
              \<and> product_coll D' = product_coll shop \<and> order_coll D' = order_coll shop)
   \<and> (product_coll empty_shop = [] \<and> faults empty_shop (CountDocuments ''product'') = None
        \<and> faults empty_shop (InsertOne ''product'') = None)
   \<and> (\<exists>D'. seed_products exact_ops (Some empty_shop) = (Inr (), Some D')
              \<and> length (product_coll D') = 5
              \<and> map (\<lambda>d. map_of d ''title'') (product_coll D')
                  = map (Some \<circ> PStr) [''Free-Range Eggs (12 pcs)'', ''Organic Eggs (12 pcs)'',
                      ''Omega-3 Enriched Eggs (12 pcs)'', ''Quail Eggs (24 pcs)'', ''Duck Eggs (6 pcs)'']
              \<and> order_coll D' = order_coll empty_shop)
   \<and> map_option product_coll (snd (list_products exact_ops (Some empty_shop)))
       = map_option product_coll (Some empty_shop)"
proof -
  have h1: "product_coll shop \<noteq> [] \<and> faults shop (CountDocuments ''product'') = None"
    by (simp add: empty_shop_def example_defs)
  have h2: "product_coll empty_shop = [] \<and> faults empty_shop (CountDocuments ''product'') = None
        \<and> faults empty_shop (InsertOne ''product'') = None"
    by (simp add: empty_shop_def example_defs)
  from seed_products_startup [of exact_ops shop empty_shop "Some empty_shop"] h1 h2
  show ?thesis by blast
qed

text \<open>
  C6, as stated, fails: listing the products of an empty, unseeded store returns the
  empty list and leaves the collection empty.
\<close>

theorem list_products_does_not_seed:
  "fst (list_products exact_ops (Some empty_shop)) = Inr []
   \<and> map_option product_coll (snd (list_products exact_ops (Some empty_shop))) = Some []"
  by (simp add: list_products_def find_product_def called_def empty_shop_def example_defs)

subsection \<open>Diagnostics\<close>

text \<open>
  C7. \<open>test_database\<close> returns a response for every environment and every state of the
  store (no database, a working one, one whose \<open>list_collection_names\<close> raises); the
  \<open>database\<close> field is one of the status texts, \<open>collections\<close> holds at most 10 names, and
  the collections of the store are left as they were.
\<close>

theorem test_database_never_throws:
  "(\<exists>r. fst (test_database env db) = Inr r \<and> database_statuses (database r)
         \<and> length (collections r) \<le> 10)
   \<and> map_option product_coll (snd (test_database env db)) = map_option product_coll db
   \<and> map_option order_coll (snd (test_database env db)) = map_option order_coll db
   \<and> map_option other_colls (snd (test_database env db)) = map_option other_colls db"
proof (cases db)
  case None
  then show ?thesis
    by (simp add: test_database_def database_statuses_def Let_def)
next
  case (Some D)
  show ?thesis
  proof (cases "faults D ListCollectionNames")
    case None
    then show ?thesis
      using Some
      by (simp add: test_database_def list_collection_names_def called_def database_statuses_def
            Let_def)
  next
    case (Some m)
    then show ?thesis
      using \<open>db = Some D\<close> status_connected_but_error [of m]
      by (simp add: test_database_def list_collection_names_def called_def Let_def)
  qed
qed

theorem test_database_never_throws_witness:
  "(\<exists>r. fst (test_database (\<lambda>k. None) (Some shop)) = Inr r
         \<and> database_statuses (database r) \<and> length (collections r) \<le> 10)
   \<and> map_option product_coll (snd (test_database (\<lambda>k. None) (Some shop)))
       = map_option product_coll (Some shop)
   \<and> map_option order_coll (snd (test_database (\<lambda>k. None) (Some shop)))
       = map_option order_coll (Some shop)
   \<and> map_option other_colls (snd (test_database (\<lambda>k. None) (Some shop)))
       = map_option other_colls (Some shop)"
  using test_database_never_throws [of "\<lambda>k. None" "Some shop"] by simp

subsection \<open>Listing\<close>

text \<open>
  C10. For a dict with an identity, \<open>to_str_id\<close> returns a new cell and leaves every cell
  that existed before, the input among them, as it was; the new dict has no \<open>_id\<close>, has
  the identity's text under \<open>id\<close>, and agrees with the input on every other field. With
  a working \<open>find\<close>, \<open>list_products\<close> returns the stored products transformed so, in order.
\<close>

theorem to_str_id_renames_on_copy:
  "(doc < length h \<and> has_identity ops (h ! doc) \<longrightarrow>
      (\<exists>d h'. to_str_id ops doc h = (d, h') \<and> d \<noteq> doc \<and> d < length h'
              \<and> take (length h) h' = h \<and> id_renamed ops (h ! doc) (h' ! d)))
   \<and> (faults D (Find ''product'') = None \<and> list_all (has_identity ops) (product_coll D) \<longrightarrow>
      (\<exists>out. fst (list_products ops (Some D)) = Inr out
             \<and> list_all2 (id_renamed ops) (product_coll D) out))"
proof (intro conjI impI)
  assume a: "doc < length h \<and> has_identity ops (h ! doc)"
  then obtain v where v: "map_of (h ! doc) ''_id'' = Some v" "py_truthy ops v"
    by (auto simp: has_identity_def split: option.splits)
  from a have lt: "doc < length h" by simp
  show "\<exists>d h'. to_str_id ops doc h = (d, h') \<and> d \<noteq> doc \<and> d < length h'
              \<and> take (length h) h' = h \<and> id_renamed ops (h ! doc) (h' ! d)"
    using to_str_id_eq [OF lt v] lt id_renamed_update [OF v(1), of ops] by simp
next
  assume a: "faults D (Find ''product'') = None \<and> list_all (has_identity ops) (product_coll D)"
  from to_str_id_each_eq [of ops "product_coll D" "product_coll D" "[]" "[]"] a
  obtain out where
    e: "to_str_id_each ops [0 ..< length (product_coll D)] (product_coll D)
          = ([length (product_coll D) ..< length (product_coll D) + length (product_coll D)],
             product_coll D @ out)"
    and r: "list_all2 (id_renamed ops) (product_coll D) out" by auto
  have len: "length out = length (product_coll D)"
    using r by (simp add: list_all2_lengthD)
  have "map (\<lambda>d. (product_coll D @ out) ! d)
          [length (product_coll D) ..< length (product_coll D) + length (product_coll D)] = out"
    using len by (intro nth_equalityI) (simp_all add: nth_append)
  then have "fst (list_products ops (Some D)) = Inr out"
    using a e by (simp add: list_products_def find_product_def called_def)
  with r show "\<exists>out. fst (list_products ops (Some D)) = Inr out
             \<and> list_all2 (id_renamed ops) (product_coll D) out" by blast
qed

theorem to_str_id_renames_on_copy_witness:
  "(0 < length (product_coll shop) \<and> has_identity exact_ops (product_coll shop ! 0))
   \<and> (\<exists>d h'. to_str_id exact_ops 0 (product_coll shop) = (d, h') \<and> d \<noteq> 0 \<and> d < length h'
              \<and> take (length (product_coll shop)) h' = product_coll shop
              \<and> id_renamed exact_ops (product_coll shop ! 0) (h' ! d))
   \<and> (faults shop (Find ''product'') = None \<and> list_all (has_identity exact_ops) (product_coll shop))
   \<and> (\<exists>out. fst (list_products exact_ops (Some shop)) = Inr out
             \<and> list_all2 (id_renamed exact_ops) (product_coll shop) out)"
proof -
  have h1: "0 < length (product_coll shop) \<and> has_identity exact_ops (product_coll shop ! 0)"
    by (simp add: example_defs has_identity_def)
  have h2: "faults shop (Find ''product'') = None \<and> list_all (has_identity exact_ops) (product_coll shop)"
    by (simp add: example_defs has_identity_def)
  from to_str_id_renames_on_copy [of 0 "product_coll shop" exact_ops shop] h1 h2
  show ?thesis by blast
qed

end
